theory Spec2Isabelle
  imports Complex_Main
begin

section \<open>Data model of \<open>src/index.tsx\<close>\<close>

text \<open>
  JavaScript numbers are IEEE 754 doubles. The special values are kept apart, because the
  grading rule depends on how they propagate; a finite double is represented by the real
  number it denotes, and the result of an arithmetic operation is the exact result
  rounded to the nearest double, ties to even, overflowing to an infinity.
\<close>

datatype jsnum = NaN | PosInf | NegInf | Fin real

text \<open>The exponent \<open>e\<close> of a positive real: \<open>2\<^sup>e \<le> y < 2\<^sup>e\<^sup>+\<^sup>1\<close>.\<close>

definition binade :: "real \<Rightarrow> int" where
  "binade y = (if y \<le> 0 then 0 else \<lfloor>log 2 y\<rfloor>)"

text \<open>Rounding to the nearest integer, a tie going to the even neighbour.\<close>

definition round_half_even :: "real \<Rightarrow> int" where
  "round_half_even z =
     (if z - of_int \<lfloor>z\<rfloor> < 1 / 2 then \<lfloor>z\<rfloor>
      else if 1 / 2 < z - of_int \<lfloor>z\<rfloor> then \<lfloor>z\<rfloor> + 1
      else if even \<lfloor>z\<rfloor> then \<lfloor>z\<rfloor> else \<lfloor>z\<rfloor> + 1)"

text \<open>
  Rounding a positive real to 53 significant bits: the spacing of the doubles around
  \<open>y\<close> is \<open>2\<^sup>e\<^sup>-\<^sup>5\<^sup>2\<close>, with the exponent held at \<open>-1022\<close> in the subnormal range.
\<close>

definition round_magnitude :: "real \<Rightarrow> real" where
  "round_magnitude y =
     (let e = max (binade y) (- 1022); q = 2 powi (e - 52)
      in of_int (round_half_even (y / q)) * q)"

text \<open>The double nearest to a real; a magnitude that rounds to \<open>2\<^sup>1\<^sup>0\<^sup>2\<^sup>4\<close> overflows.\<close>

definition round64 :: "real \<Rightarrow> jsnum" where
  "round64 r =
     (if r = 0 then Fin 0
      else if 2 powi 1024 \<le> round_magnitude \<bar>r\<bar> then (if r < 0 then NegInf else PosInf)
      else Fin (if r < 0 then - round_magnitude \<bar>r\<bar> else round_magnitude \<bar>r\<bar>))"

text \<open>Binary \<open>-\<close> on numbers.\<close>

fun js_sub :: "jsnum \<Rightarrow> jsnum \<Rightarrow> jsnum" where
  "js_sub NaN _ = NaN"
| "js_sub _ NaN = NaN"
| "js_sub (Fin x) (Fin y) = round64 (x - y)"
| "js_sub (Fin _) PosInf = NegInf"
| "js_sub (Fin _) NegInf = PosInf"
| "js_sub PosInf PosInf = NaN"
| "js_sub PosInf _ = PosInf"
| "js_sub NegInf NegInf = NaN"
| "js_sub NegInf _ = NegInf"

text \<open>\<open>Math.abs\<close>.\<close>

fun Math_abs :: "jsnum \<Rightarrow> jsnum" where
  "Math_abs NaN = NaN"
| "Math_abs PosInf = PosInf"
| "Math_abs NegInf = PosInf"
| "Math_abs (Fin x) = Fin \<bar>x\<bar>"

text \<open>The relational operator \<open><\<close>: a comparison with \<open>NaN\<close> is false.\<close>

fun js_lt :: "jsnum \<Rightarrow> jsnum \<Rightarrow> bool" where
  "js_lt NaN _ = False"
| "js_lt _ NaN = False"
| "js_lt (Fin x) (Fin y) = (x < y)"
| "js_lt _ NegInf = False"
| "js_lt PosInf _ = False"
| "js_lt NegInf _ = True"
| "js_lt (Fin _) PosInf = True"

text \<open>
  Strings are the byte sequences of their UTF-8 encoding, as the source file stores them;
  the empty string is the empty list, which is all that \<open>!userAnswer\<close> and \<open>!text\<close> test.
\<close>

record MathProblem =
  question :: string
  answer :: jsnum
  explanation :: string
  type :: string

record HistoryItem =
  item_problem :: MathProblem
  item_userAnswer :: string
  item_isCorrect :: bool

datatype GameState = intro | loading | playing | summary

text \<open>The seven \<open>useState\<close> cells of the \<open>App\<close> component.\<close>

record App =
  gameState :: GameState
  problems :: "MathProblem list"
  currentIndex :: nat
  userAnswer :: string
  showExplanation :: bool
  history :: "HistoryItem list"
  score :: nat

text \<open>The initial values passed to \<open>useState\<close> (lines 85 to 91).\<close>

definition initialApp :: App where
  "initialApp =
     \<lparr>gameState = intro, problems = [], currentIndex = 0, userAnswer = [],
      showExplanation = False, history = [], score = 0\<rparr>"

datatype js_error = TypeError | ClientError

section \<open>The problem source\<close>

text \<open>The three fallback problems of lines 75 to 77.\<close>

definition fallback :: "MathProblem list" where
  "fallback =
    [\<lparr>question = ''25 '' @ [CHR 0xC3, CHR 0x97] @ '' 44'',
      answer = Fin 1100,
      explanation = [CHR 0xE6, CHR 0x8A, CHR 0x8A] @ ''44'' @ [CHR 0xE6, CHR 0x8B, CHR 0x86, CHR 0xE5, CHR 0x88, CHR 0x86, CHR 0xE6, CHR 0x88, CHR 0x90] @ ''4'' @ [CHR 0xC3, CHR 0x97] @ ''11'' @ [CHR 0xEF, CHR 0xBC, CHR 0x8C, CHR 0xE7, CHR 0x84, CHR 0xB6, CHR 0xE5, CHR 0x90, CHR 0x8E] @ ''25'' @ [CHR 0xC3, CHR 0x97] @ ''4=100'' @ [CHR 0xEF, CHR 0xBC, CHR 0x8C] @ ''100'' @ [CHR 0xC3, CHR 0x97] @ ''11=1100'',
      type = [CHR 0xE4, CHR 0xB9, CHR 0x98, CHR 0xE6, CHR 0xB3, CHR 0x95, CHR 0xE7, CHR 0xBB, CHR 0x93, CHR 0xE5, CHR 0x90, CHR 0x88, CHR 0xE5, CHR 0xBE, CHR 0x8B]\<rparr>,
     \<lparr>question = ''135 + 289 + 65'',
      answer = Fin 489,
      explanation = [CHR 0xE5, CHR 0x88, CHR 0xA9, CHR 0xE7, CHR 0x94, CHR 0xA8, CHR 0xE5, CHR 0x8A, CHR 0xA0, CHR 0xE6, CHR 0xB3, CHR 0x95, CHR 0xE4, CHR 0xBA, CHR 0xA4, CHR 0xE6, CHR 0x8D, CHR 0xA2, CHR 0xE5, CHR 0xBE, CHR 0x8B, CHR 0xEF, CHR 0xBC, CHR 0x8C, CHR 0xE5, CHR 0x85, CHR 0x88, CHR 0xE7, CHR 0xAE, CHR 0x97] @ ''135+65=200'' @ [CHR 0xEF, CHR 0xBC, CHR 0x8C, CHR 0xE5, CHR 0x86, CHR 0x8D, CHR 0xE5, CHR 0x8A, CHR 0xA0] @ ''289'' @ [CHR 0xE7, CHR 0xAD, CHR 0x89, CHR 0xE4, CHR 0xBA, CHR 0x8E] @ ''489'',
      type = [CHR 0xE5, CHR 0x8A, CHR 0xA0, CHR 0xE6, CHR 0xB3, CHR 0x95, CHR 0xE5, CHR 0x87, CHR 0x91, CHR 0xE6, CHR 0x95, CHR 0xB4]\<rparr>,
     \<lparr>question = ''47 '' @ [CHR 0xC3, CHR 0x97] @ '' 99 + 47'',
      answer = Fin 4700,
      explanation = [CHR 0xE6, CHR 0x8F, CHR 0x90, CHR 0xE5, CHR 0x8F, CHR 0x96, CHR 0xE5, CHR 0x85, CHR 0xAC, CHR 0xE5, CHR 0x9B, CHR 0xA0, CHR 0xE6, CHR 0x95, CHR 0xB0] @ ''47'' @ [CHR 0xEF, CHR 0xBC, CHR 0x8C, CHR 0xE5, CHR 0x8F, CHR 0x98, CHR 0xE6, CHR 0x88, CHR 0x90] @ '' 47 '' @ [CHR 0xC3, CHR 0x97] @ '' (99 + 1) = 47 '' @ [CHR 0xC3, CHR 0x97] @ '' 100'',
      type = [CHR 0xE4, CHR 0xB9, CHR 0x98, CHR 0xE6, CHR 0xB3, CHR 0x95, CHR 0xE5, CHR 0x88, CHR 0x86, CHR 0xE9, CHR 0x85, CHR 0x8D, CHR 0xE5, CHR 0xBE, CHR 0x8B]\<rparr>]"

text \<open>
  What the remote service does is outside the program, so it is an input of the model:
  constructing the client (line 23, before the \<open>try\<close>) throws, or the request of line 58
  throws, or it resolves to a response whose \<open>text\<close> is a string or \<open>undefined\<close>.
\<close>

datatype api_result = ClientThrows | RequestThrows | Responds "string option"

text \<open>
  \<open>generateDailyProblems\<close> (lines 22 to 80). \<open>JSON.parse\<close> is a parameter: \<open>None\<close> is its
  \<open>SyntaxError\<close>, and \<open>Some ps\<close> is the parsed value, which line 70 casts to
  \<open>MathProblem[]\<close> without inspecting it. Errors thrown inside the \<open>try\<close> are caught and
  replaced by the fallback; an error thrown before the \<open>try\<close> leaves the function.
\<close>

definition generateDailyProblems ::
    "(string \<Rightarrow> MathProblem list option) \<Rightarrow> api_result \<Rightarrow> js_error + MathProblem list" where
  "generateDailyProblems JSON_parse r =
     (case r of
        ClientThrows \<Rightarrow> Inl ClientError
      | RequestThrows \<Rightarrow> Inr fallback
      | Responds text \<Rightarrow>
          (case text of
             None \<Rightarrow> Inr fallback
           | Some t \<Rightarrow>
               if t = [] then Inr fallback
               else (case JSON_parse t of
                       None \<Rightarrow> Inr fallback
                     | Some ps \<Rightarrow> Inr ps)))"

section \<open>The handlers of the \<open>App\<close> component\<close>

text \<open>
  \<open>startTraining\<close> (lines 95 to 105) runs in two parts: the part before the \<open>await\<close>,
  executed by the click, and the continuation, executed when the promise of
  \<open>generateDailyProblems\<close> settles. A rejected promise ends the function without any
  further state update.
\<close>

definition startTraining :: "App \<Rightarrow> App" where
  "startTraining s = s\<lparr>gameState := loading\<rparr>"

definition startTraining_resume ::
    "(string \<Rightarrow> MathProblem list option) \<Rightarrow> api_result \<Rightarrow> App \<Rightarrow> App" where
  "startTraining_resume JSON_parse r s =
     (case generateDailyProblems JSON_parse r of
        Inl _ \<Rightarrow> s
      | Inr newProblems \<Rightarrow>
          s\<lparr>problems := newProblems, currentIndex := 0, score := 0, history := [],
            userAnswer := [], showExplanation := False, gameState := playing\<rparr>)"

text \<open>
  The grading expression of lines 111 to 113,
  \<open>Math.abs(parseFloat(userAnswer) - currentProblem.answer) < 0.01\<close>, with \<open>parseFloat\<close>
  a parameter. The literal \<open>0.01\<close> denotes the double nearest to one hundredth.
\<close>

definition isCorrect :: "(string \<Rightarrow> jsnum) \<Rightarrow> string \<Rightarrow> MathProblem \<Rightarrow> bool" where
  "isCorrect parseFloat txt currentProblem =
     js_lt (Math_abs (js_sub (parseFloat txt) (answer currentProblem))) (round64 (1 / 100))"

text \<open>\<open>problems[currentIndex]\<close>, which is \<open>undefined\<close> out of range.\<close>

definition currentProblem :: "App \<Rightarrow> MathProblem option" where
  "currentProblem s =
     (if currentIndex s < length (problems s) then Some (problems s ! currentIndex s) else None)"

text \<open>
  \<open>handleSubmit\<close> (lines 107 to 125). Reading \<open>.answer\<close> of \<open>undefined\<close> throws a
  \<open>TypeError\<close> before any state is written. A call reads the state of the latest render,
  which is the argument here.
\<close>

definition handleSubmit :: "(string \<Rightarrow> jsnum) \<Rightarrow> App \<Rightarrow> js_error + App" where
  "handleSubmit parseFloat s =
     (if userAnswer s = [] then Inr s
      else
        (case currentProblem s of
           None \<Rightarrow> Inl TypeError
         | Some p \<Rightarrow>
             let c = isCorrect parseFloat (userAnswer s) p;
                 newItem = \<lparr>item_problem = p, item_userAnswer = userAnswer s, item_isCorrect = c\<rparr>
             in Inr (s\<lparr>score := (if c then score s + 1 else score s),
                      history := history s @ [newItem],
                      showExplanation := True\<rparr>)))"

text \<open>
  \<open>handleNext\<close> (lines 127 to 137). The comparison is done on integers, since
  \<open>problems.length - 1\<close> is \<open>-1\<close> for an empty array.
\<close>

definition handleNext :: "App \<Rightarrow> App" where
  "handleNext s =
     (if int (currentIndex s) < int (length (problems s)) - 1
      then s\<lparr>currentIndex := currentIndex s + 1, userAnswer := [], showExplanation := False\<rparr>
      else s\<lparr>gameState := summary\<rparr>)"

section \<open>The session as a state machine\<close>

text \<open>
  The events that can reach the component: the two buttons wired to \<open>startTraining\<close>,
  the settling of the pending fetch, the \<open>onChange\<close> of the input (line 265), the
  \<open>onSubmit\<close> of the form and the button wired to \<open>handleNext\<close>.
\<close>

datatype event =
    ClickStart
  | FetchSettles api_result
  | ChangeAnswer string
  | SubmitForm
  | ClickNext

text \<open>
  Which events the rendered screen offers (lines 140 to 319). The playing screen reads
  \<open>currentProblem.type\<close> while rendering, so with no current problem the render throws and
  nothing is offered any more; the form is rendered only while \<open>showExplanation\<close> is
  false, the button of \<open>handleNext\<close> only while it is true.
\<close>

definition offered :: "App \<Rightarrow> event \<Rightarrow> bool" where
  "offered s e =
     (case gameState s of
        intro \<Rightarrow> e = ClickStart
      | loading \<Rightarrow> (case e of FetchSettles _ \<Rightarrow> True | _ \<Rightarrow> False)
      | summary \<Rightarrow> e = ClickStart
      | playing \<Rightarrow>
          (case currentProblem s of
             None \<Rightarrow> False
           | Some _ \<Rightarrow>
               if \<not> showExplanation s
               then (case e of ChangeAnswer _ \<Rightarrow> True | SubmitForm \<Rightarrow> True | _ \<Rightarrow> False)
               else e = ClickNext))"

text \<open>The handler behind each event; an exception in a handler leaves the state as it was.\<close>

definition handle ::
    "(string \<Rightarrow> jsnum) \<Rightarrow> (string \<Rightarrow> MathProblem list option) \<Rightarrow> App \<Rightarrow> event \<Rightarrow> App" where
  "handle parseFloat JSON_parse s e =
     (case e of
        ClickStart \<Rightarrow> startTraining s
      | FetchSettles r \<Rightarrow> startTraining_resume JSON_parse r s
      | ChangeAnswer txt \<Rightarrow> s\<lparr>userAnswer := txt\<rparr>
      | SubmitForm \<Rightarrow> (case handleSubmit parseFloat s of Inl _ \<Rightarrow> s | Inr s' \<Rightarrow> s')
      | ClickNext \<Rightarrow> handleNext s)"

text \<open>
  An event that the screen does not offer cannot happen and changes nothing. (After a
  rejected fetch the program stays on the loading screen for good; the model still lets
  a later \<open>FetchSettles\<close> through there, which only adds reachable states.)
\<close>

definition fire ::
    "(string \<Rightarrow> jsnum) \<Rightarrow> (string \<Rightarrow> MathProblem list option) \<Rightarrow> App \<Rightarrow> event \<Rightarrow> App" where
  "fire parseFloat JSON_parse s e =
     (if offered s e then handle parseFloat JSON_parse s e else s)"

text \<open>The state reached from the initial one by a sequence of events.\<close>

definition run ::
    "(string \<Rightarrow> jsnum) \<Rightarrow> (string \<Rightarrow> MathProblem list option) \<Rightarrow> event list \<Rightarrow> App" where
  "run parseFloat JSON_parse es = foldl (fire parseFloat JSON_parse) initialApp es"

section \<open>Sample inputs\<close>

text \<open>
  A finite table standing in for \<open>parseFloat\<close> in the examples below. It is used only on
  the four decimal texts listed, where it returns the number \<open>parseFloat\<close> returns (the
  double nearest to the decimal), and on \<open>''abc''\<close>, which \<open>parseFloat\<close> maps to \<open>NaN\<close>.
\<close>

definition parseFloat_sample :: "string \<Rightarrow> jsnum" where
  "parseFloat_sample txt =
     (if txt = ''1100'' then Fin 1100
      else if txt = ''4700'' then Fin 4700
      else if txt = ''12'' then Fin 12
      else if txt = ''0.0112'' then round64 (112 / 10000)
      else NaN)"

text \<open>
  A problem whose answer is not an integer: the JSON number \<open>0.0012\<close>, read as the double
  nearest to it.
\<close>

definition small_problem :: MathProblem where
  "small_problem =
     \<lparr>question = ''0.0004 + 0.0008'', answer = round64 (12 / 10000),
      explanation = ''0.0004 + 0.0008 = 0.0012'', type = ''decimals''\<rparr>"

text \<open>
  Likewise for \<open>JSON.parse\<close>: used only on \<open>''[]''\<close>, the JSON text of the empty array, and
  on \<open>''oops''\<close>, which is not JSON.
\<close>

definition JSON_parse_sample :: "string \<Rightarrow> MathProblem list option" where
  "JSON_parse_sample t = (if t = ''[]'' then Some [] else None)"

text \<open>A session on the fallback problems in which the answer to the first one is typed in.\<close>

definition answering_first :: App where
  "answering_first =
     run parseFloat_sample JSON_parse_sample
       [ClickStart, FetchSettles RequestThrows, ChangeAnswer ''1100'']"

text \<open>A session whose fetch succeeded with the empty array.\<close>

definition after_empty_fetch :: App where
  "after_empty_fetch =
     run parseFloat_sample JSON_parse_sample
       [ClickStart, FetchSettles (Responds (Some ''[]''))]"

section \<open>Invariants\<close>

definition score_inv :: "App \<Rightarrow> bool" where
  "score_inv s \<longleftrightarrow> score s = length (filter item_isCorrect (history s))"

definition history_inv :: "App \<Rightarrow> bool" where
  "history_inv s \<longleftrightarrow>
     (gameState s = playing \<longrightarrow>
        length (history s) = (if showExplanation s then currentIndex s + 1 else currentIndex s))"

definition index_inv :: "App \<Rightarrow> bool" where
  "index_inv s \<longleftrightarrow>
     (gameState s = playing \<longrightarrow>
        currentIndex s < length (problems s) \<or> (problems s = [] \<and> currentIndex s = 0))"

section \<open>Auxiliary lemmas\<close>

lemmas handler_defs =
  fire_def handle_def offered_def startTraining_def startTraining_resume_def
  handleSubmit_def handleNext_def currentProblem_def generateDailyProblems_def

lemma foldl_invariant:
  assumes "P s" and "\<And>s e. P s \<Longrightarrow> P (f s e)"
  shows "P (foldl f s es)"
  using assms by (induction es arbitrary: s) auto

lemma floor_log2_powi:
  assumes "0 < y"
  shows "\<lfloor>log 2 y\<rfloor> = k \<longleftrightarrow> 2 powi k \<le> y \<and> y < 2 powi (k + 1)"
proof -
  have "(2::real) powr real_of_int k = 2 powi k"
    by (rule powr_real_of_int') simp_all
  moreover have "(2::real) powr real_of_int (k + 1) = 2 powi (k + 1)"
    by (rule powr_real_of_int') simp_all
  moreover have "\<lfloor>log 2 y\<rfloor> = k \<longleftrightarrow>
      2 powr real_of_int k \<le> y \<and> y < 2 powr real_of_int (k + 1)"
    using assms by (intro floor_log_eq_powr_iff) simp_all
  ultimately show ?thesis by (simp only:)
qed

lemma binade_bounds:
  assumes "0 < y"
  shows "2 powi binade y \<le> y" and "y < 2 powi (binade y + 1)"
  using floor_log2_powi [OF assms, of "\<lfloor>log 2 y\<rfloor>"] assms by (simp_all add: binade_def)

lemma binade_eqI:
  assumes "2 powi e \<le> y" and "y < 2 powi (e + 1)"
  shows "binade y = e"
proof -
  have "(0::real) < 2 powi e" by simp
  with assms have "0 < y" by linarith
  with assms show ?thesis
    using floor_log2_powi [of y e] by (simp add: binade_def)
qed

lemma rhe_cases: "round_half_even z = \<lfloor>z\<rfloor> \<or> round_half_even z = \<lfloor>z\<rfloor> + 1"
  by (simp add: round_half_even_def)

lemma rhe_of_int: "round_half_even (of_int n) = n"
  by (simp add: round_half_even_def)

lemma rhe_le_int: "z \<le> of_int n \<Longrightarrow> round_half_even z \<le> n"
proof -
  assume a: "z \<le> of_int n"
  show ?thesis
  proof (cases "z = of_int n")
    case True then show ?thesis by (simp add: rhe_of_int)
  next
    case False
    with a have "z < of_int n" by simp
    then have "\<lfloor>z\<rfloor> < n" by (simp add: floor_less_iff)
    with rhe_cases [of z] show ?thesis by linarith
  qed
qed

lemma rhe_ge_int: "of_int n \<le> z \<Longrightarrow> n \<le> round_half_even z"
proof -
  assume "of_int n \<le> z"
  then have "n \<le> \<lfloor>z\<rfloor>" by (simp add: le_floor_iff)
  with rhe_cases [of z] show ?thesis by linarith
qed

lemma rhe_le_even:
  assumes "even n"
  shows "round_half_even z \<le> n \<longleftrightarrow> z \<le> of_int n + 1 / 2"
proof
  assume h: "round_half_even z \<le> n"
  show "z \<le> of_int n + 1 / 2"
  proof (rule ccontr)
    assume "\<not> z \<le> of_int n + 1 / 2"
    then have gt: "of_int n + 1 / 2 < z" by simp
    then have "of_int n \<le> z" by linarith
    then have fl: "n \<le> \<lfloor>z\<rfloor>" by (simp add: le_floor_iff)
    show False
    proof (cases "\<lfloor>z\<rfloor> = n")
      case True
      with gt have "1 / 2 < z - of_int \<lfloor>z\<rfloor>" by simp
      then have "round_half_even z = \<lfloor>z\<rfloor> + 1" by (simp add: round_half_even_def)
      with True h show False by simp
    next
      case False
      with fl have "n < \<lfloor>z\<rfloor>" by simp
      with rhe_cases [of z] h show False by linarith
    qed
  qed
next
  assume h: "z \<le> of_int n + 1 / 2"
  then have "z < of_int (n + 1)" by simp
  then have fl: "\<lfloor>z\<rfloor> < n + 1" by (simp only: floor_less_iff)
  show "round_half_even z \<le> n"
  proof (cases "\<lfloor>z\<rfloor> = n")
    case True
    with h have "z - of_int \<lfloor>z\<rfloor> \<le> 1 / 2" by simp
    with True assms show ?thesis by (auto simp: round_half_even_def)
  next
    case False
    with fl have "\<lfloor>z\<rfloor> < n" by simp
    with rhe_cases [of z] show ?thesis by linarith
  qed
qed


lemma round_magnitude_at:
  assumes "max (binade y) (- 1022) = e"
  shows "round_magnitude y = of_int (round_half_even (y / 2 powi (e - 52))) * 2 powi (e - 52)"
  using assms by (simp add: round_magnitude_def Let_def)

lemma round_magnitude_nonneg: "0 \<le> y \<Longrightarrow> 0 \<le> round_magnitude y"
proof -
  assume "0 \<le> y"
  then have "of_int 0 \<le> y / 2 powi (max (binade y) (- 1022) - 52)" by simp
  then have "0 \<le> round_half_even (y / 2 powi (max (binade y) (- 1022) - 52))"
    by (rule rhe_ge_int)
  then show ?thesis by (simp add: round_magnitude_def Let_def)
qed

lemma powi_split_52:
  "(2::real) powi e = 2 ^ 52 * 2 powi (e - 52)"
  "(2::real) powi (e + 1) = 2 ^ 53 * 2 powi (e - 52)"
proof -
  have "(2::real) powi (52 + (e - 52)) = 2 powi 52 * 2 powi (e - 52)"
    by (rule power_int_add) simp
  then show "(2::real) powi e = 2 ^ 52 * 2 powi (e - 52)" by simp
  have "(2::real) powi (53 + (e - 52)) = 2 powi 53 * 2 powi (e - 52)"
    by (rule power_int_add) simp
  moreover have "53 + (e - 52) = e + 1" by simp
  ultimately show "(2::real) powi (e + 1) = 2 ^ 53 * 2 powi (e - 52)" by simp
qed

lemma round_magnitude_small:
  assumes "0 < y" and "y < 2 powi k" and "- 1021 \<le> k"
  shows "round_magnitude y \<le> 2 powi k"
proof -
  define e where "e = max (binade y) (- 1022)"
  define q :: real where "q = 2 powi (e - 52)"
  have q: "0 < q" by (simp add: q_def)
  have rm: "round_magnitude y = of_int (round_half_even (y / q)) * q"
    by (simp add: round_magnitude_def Let_def e_def q_def)
  have "binade y < k"
  proof (rule ccontr)
    assume "\<not> binade y < k"
    then have "(2::real) powi k \<le> 2 powi binade y"
      by (intro power_int_increasing) simp_all
    with binade_bounds(1) [OF assms(1)] assms(2) show False by linarith
  qed
  with assms(3) have ek: "e + 1 \<le> k" by (simp add: e_def)
  have "y < 2 powi (binade y + 1)" by (rule binade_bounds(2) [OF assms(1)])
  also have "\<dots> \<le> 2 powi (e + 1)"
    by (intro power_int_increasing) (simp_all add: e_def)
  also have "\<dots> = 2 ^ 53 * q" unfolding q_def by (rule powi_split_52(2))
  finally have "y / q < 2 ^ 53" using q by (simp add: pos_divide_less_eq)
  then have "y / q \<le> of_int (2 ^ 53)" by simp
  then have "round_half_even (y / q) \<le> 2 ^ 53" by (rule rhe_le_int)
  then have "real_of_int (round_half_even (y / q)) \<le> real_of_int (2 ^ 53)"
    by (simp only: of_int_le_iff)
  then have "of_int (round_half_even (y / q)) * q \<le> of_int (2 ^ 53) * q"
    using q by (intro mult_right_mono) simp_all
  also have "of_int (2 ^ 53) * q = 2 powi (e + 1)"
    unfolding q_def using powi_split_52(2) [of e] by simp
  also have "\<dots> \<le> 2 powi k" using ek by (intro power_int_increasing) simp_all
  finally show ?thesis by (simp only: rm)
qed

lemma round_magnitude_big:
  assumes "2 powi k \<le> y" and "- 1022 \<le> k"
  shows "2 powi k \<le> round_magnitude y"
proof -
  define e where "e = max (binade y) (- 1022)"
  define q :: real where "q = 2 powi (e - 52)"
  have q: "0 < q" by (simp add: q_def)
  have rm: "round_magnitude y = of_int (round_half_even (y / q)) * q"
    by (simp add: round_magnitude_def Let_def e_def q_def)
  have "(0::real) < 2 powi k" by simp
  with assms(1) have y: "0 < y" by linarith
  have kb: "k \<le> binade y"
  proof (rule ccontr)
    assume "\<not> k \<le> binade y"
    then have "(2::real) powi (binade y + 1) \<le> 2 powi k"
      by (intro power_int_increasing) simp_all
    with binade_bounds(2) [OF y] assms(1) show False by linarith
  qed
  with assms(2) have eb: "e = binade y" by (simp add: e_def)
  have "2 ^ 52 * q = 2 powi e" unfolding q_def by (rule powi_split_52(1) [symmetric])
  also have "\<dots> \<le> y" using binade_bounds(1) [OF y] eb by simp
  finally have "2 ^ 52 \<le> y / q" using q by (simp add: pos_le_divide_eq)
  then have "of_int (2 ^ 52) \<le> y / q" by simp
  then have "2 ^ 52 \<le> round_half_even (y / q)" by (rule rhe_ge_int)
  then have "real_of_int (2 ^ 52) \<le> real_of_int (round_half_even (y / q))"
    by (simp only: of_int_le_iff)
  then have le: "of_int (2 ^ 52) * q \<le> of_int (round_half_even (y / q)) * q"
    using q by (intro mult_right_mono) simp_all
  have "(2::real) powi k \<le> 2 powi e"
    using kb eb by (intro power_int_increasing) simp_all
  also have "\<dots> = of_int (2 ^ 52) * q"
    unfolding q_def using powi_split_52(1) [of e] by simp
  also note le
  finally show ?thesis by (simp only: rm)
qed

lemma round_magnitude_mid:
  assumes "2 powi (- 7) \<le> y" and "y < 2 powi (- 6)"
  shows "round_magnitude y = of_int (round_half_even (y * 2 ^ 59)) / 2 ^ 59"
proof -
  from assms have "binade y = - 7" by (intro binade_eqI) simp_all
  then have "max (binade y) (- 1022) = - 7" by simp
  from round_magnitude_at [OF this] show ?thesis
    by (simp add: power_int_minus field_simps)
qed


lemma binade_code [code]:
  "binade y =
     (if y \<le> 0 then 0
      else if y < 1 then binade (2 * y) - 1
      else if 2 \<le> y then binade (y / 2) + 1
      else 0)"
proof -
  consider "y \<le> 0" | "0 < y" "y < 1" | "2 \<le> y" | "1 \<le> y" "y < 2" by linarith
  then show ?thesis
  proof cases
    case 1
    then show ?thesis by (simp add: binade_def)
  next
    case 2
    then have p: "0 < 2 * y" by simp
    have "2 powi (binade (2 * y) - 1) \<le> y" and "y < 2 powi (binade (2 * y) - 1 + 1)"
      using binade_bounds [OF p] by (simp_all add: power_int_diff power_int_add)
    then have "binade y = binade (2 * y) - 1" by (rule binade_eqI)
    with 2 show ?thesis by simp
  next
    case 3
    then have p: "0 < y / 2" by simp
    have "2 powi (binade (y / 2) + 1) \<le> y" and "y < 2 powi (binade (y / 2) + 1 + 1)"
      using binade_bounds [OF p] by (simp_all add: power_int_diff power_int_add)
    then have "binade y = binade (y / 2) + 1" by (rule binade_eqI)
    with 3 show ?thesis by simp
  next
    case 4
    then have "binade y = 0" by (intro binade_eqI) simp_all
    with 4 show ?thesis by simp
  qed
qed

lemma abs_round64:
  assumes "d \<noteq> 0"
  shows "Math_abs (round64 d) =
           (if 2 powi 1024 \<le> round_magnitude \<bar>d\<bar> then PosInf else Fin (round_magnitude \<bar>d\<bar>))"
  using assms round_magnitude_nonneg [of "\<bar>d\<bar>"] by (simp add: round64_def)

lemma round64_eval:
  assumes "2 powi e \<le> \<bar>r\<bar>" and "\<bar>r\<bar> < 2 powi (e + 1)" and "- 1022 \<le> e" and "e \<le> 1022"
  shows "round64 r =
           Fin ((if r < 0 then - 1 else 1)
                * (of_int (round_half_even (\<bar>r\<bar> / 2 powi (e - 52))) * 2 powi (e - 52)))"
proof -
  have "(0::real) < 2 powi e" by simp
  with assms(1) have nz: "r \<noteq> 0" by linarith
  from assms(1,2) have "binade \<bar>r\<bar> = e" by (rule binade_eqI)
  with assms(3) have "max (binade \<bar>r\<bar>) (- 1022) = e" by simp
  then have rm: "round_magnitude \<bar>r\<bar> =
      of_int (round_half_even (\<bar>r\<bar> / 2 powi (e - 52))) * 2 powi (e - 52)"
    by (rule round_magnitude_at)
  have "round_magnitude \<bar>r\<bar> \<le> 2 powi (e + 1)"
    using nz assms(2,3) by (intro round_magnitude_small) simp_all
  also have "\<dots> < (2::real) powi 1024"
    using assms(4) by (intro power_int_strict_increasing) simp_all
  finally have "\<not> 2 powi 1024 \<le> round_magnitude \<bar>r\<bar>" by simp
  with nz have "round64 r =
      Fin (if r < 0 then - round_magnitude \<bar>r\<bar> else round_magnitude \<bar>r\<bar>)"
    by (simp only: round64_def if_False)
  then show ?thesis unfolding rm by simp
qed

lemma round64_hundredth: "round64 (1 / 100) = Fin (5764607523034235 / 2 ^ 59)"
proof -
  have "round64 (1 / 100) =
      Fin ((if (1 / 100 :: real) < 0 then - 1 else 1)
           * (of_int (round_half_even (\<bar>1 / 100\<bar> / 2 powi (- 7 - 52))) * 2 powi (- 7 - 52)))"
    by (rule round64_eval) simp_all
  then show ?thesis by (simp add: round_half_even_def)
qed

lemma graded_iff:
  "js_lt (Math_abs (round64 d)) (round64 (1 / 100)) \<longleftrightarrow> \<bar>d\<bar> \<le> 11529215046068469 / 2 ^ 60"
proof -
  consider "d = 0" | "d \<noteq> 0" "\<bar>d\<bar> < 2 powi (- 7)"
    | "2 powi (- 7) \<le> \<bar>d\<bar>" "\<bar>d\<bar> < 2 powi (- 6)" | "2 powi (- 6) \<le> \<bar>d\<bar>"
    by linarith
  then show ?thesis
  proof cases
    case 1
    then have "round64 d = Fin 0" by (simp add: round64_def)
    then show ?thesis using 1 by (simp add: round64_hundredth)
  next
    case 2
    then have "round_magnitude \<bar>d\<bar> \<le> 2 powi (- 7)"
      by (intro round_magnitude_small) simp_all
    then have le: "round_magnitude \<bar>d\<bar> \<le> 1 / 128" by simp
    then have "\<not> 2 powi 1024 \<le> round_magnitude \<bar>d\<bar>" by simp
    with 2(1) have "Math_abs (round64 d) = Fin (round_magnitude \<bar>d\<bar>)"
      by (simp add: abs_round64)
    moreover from 2(2) have "\<bar>d\<bar> < 1 / 128" by simp
    ultimately show ?thesis using le by (simp add: round64_hundredth)
  next
    case 3
    have nz: "d \<noteq> 0" using 3(1) by auto
    have rm: "round_magnitude \<bar>d\<bar> = of_int (round_half_even (\<bar>d\<bar> * 2 ^ 59)) / 2 ^ 59"
      using 3 by (rule round_magnitude_mid)
    have "round_magnitude \<bar>d\<bar> \<le> 2 powi (- 6)"
      using nz 3(2) by (intro round_magnitude_small) simp_all
    then have "\<not> 2 powi 1024 \<le> round_magnitude \<bar>d\<bar>" by simp
    with nz have ab: "Math_abs (round64 d) = Fin (round_magnitude \<bar>d\<bar>)"
      by (simp add: abs_round64)
    have "round_magnitude \<bar>d\<bar> < 5764607523034235 / 2 ^ 59
            \<longleftrightarrow> round_half_even (\<bar>d\<bar> * 2 ^ 59) \<le> 5764607523034234"
      unfolding rm by (simp add: divide_less_cancel) linarith
    also have "\<dots> \<longleftrightarrow> \<bar>d\<bar> * 2 ^ 59 \<le> of_int 5764607523034234 + 1 / 2"
      by (rule rhe_le_even) simp
    also have "\<dots> \<longleftrightarrow> \<bar>d\<bar> \<le> 11529215046068469 / 2 ^ 60" by (simp add: mult.commute)
    finally show ?thesis by (simp only: ab round64_hundredth js_lt.simps)
  next
    case 4
    then have nz: "d \<noteq> 0" by auto
    have "2 powi (- 6) \<le> round_magnitude \<bar>d\<bar>"
      using 4 by (intro round_magnitude_big) simp_all
    then have ge: "1 / 64 \<le> round_magnitude \<bar>d\<bar>" by simp
    from 4 have "1 / 64 \<le> \<bar>d\<bar>" by simp
    with ge nz show ?thesis by (simp add: abs_round64 round64_hundredth)
  qed
qed

lemma round64_sample_answer: "round64 (112 / 10000) = Fin (6456360425798343 / 2 ^ 59)"
proof -
  have "round64 (112 / 10000) =
      Fin ((if (112 / 10000 :: real) < 0 then - 1 else 1)
           * (of_int (round_half_even (\<bar>112 / 10000\<bar> / 2 powi (- 7 - 52))) * 2 powi (- 7 - 52)))"
    by (rule round64_eval) simp_all
  then show ?thesis by (simp add: round_half_even_def)
qed

lemma round64_sample_problem: "round64 (12 / 10000) = Fin (5534023222112865 / 2 ^ 62)"
proof -
  have "round64 (12 / 10000) =
      Fin ((if (12 / 10000 :: real) < 0 then - 1 else 1)
           * (of_int (round_half_even (\<bar>12 / 10000\<bar> / 2 powi (- 10 - 52))) * 2 powi (- 10 - 52)))"
    by (rule round64_eval) simp_all
  then show ?thesis by (simp add: round_half_even_def)
qed

lemma isCorrect_rounded:
  "isCorrect pf txt p \<longleftrightarrow>
     (\<exists>x a. pf txt = Fin x \<and> answer p = Fin a
        \<and> js_lt (Math_abs (round64 (x - a))) (round64 (1 / 100)))"
  by (cases "pf txt"; cases "answer p") (simp_all add: isCorrect_def round64_hundredth)

lemma isCorrect_threshold:
  "isCorrect pf txt p \<longleftrightarrow>
     (\<exists>x a. pf txt = Fin x \<and> answer p = Fin a \<and> \<bar>x - a\<bar> \<le> 11529215046068469 / 2 ^ 60)"
  by (simp only: isCorrect_rounded graded_iff)

lemma score_inv_fire: "score_inv s \<Longrightarrow> score_inv (fire pf jp s e)"
  by (auto simp: score_inv_def handler_defs Let_def
      split: event.splits sum.splits option.splits if_splits)

lemma history_inv_fire: "history_inv s \<Longrightarrow> history_inv (fire pf jp s e)"
  by (auto simp: history_inv_def handler_defs Let_def
      split: event.splits sum.splits option.splits if_splits GameState.splits)

lemma index_inv_fire: "index_inv s \<Longrightarrow> index_inv (fire pf jp s e)"
  by (auto simp: index_inv_def handler_defs Let_def
      split: event.splits sum.splits option.splits if_splits GameState.splits api_result.splits)

lemma score_inv_run: "score_inv (run pf jp es)"
  unfolding run_def
  by (rule foldl_invariant) (simp_all add: score_inv_fire, simp add: score_inv_def initialApp_def)

lemma history_inv_run: "history_inv (run pf jp es)"
  unfolding run_def
  by (rule foldl_invariant) (simp_all add: history_inv_fire, simp add: history_inv_def initialApp_def)

lemma index_inv_run: "index_inv (run pf jp es)"
  unfolding run_def
  by (rule foldl_invariant) (simp_all add: index_inv_fire, simp add: index_inv_def initialApp_def)

lemma fire_history_grows:
  assumes "length (history s) < length (history (fire pf jp s e))"
  shows "e = SubmitForm \<and> length (history (fire pf jp s e)) = length (history s) + 1
         \<and> currentIndex (fire pf jp s e) = currentIndex s"
  using assms
  by (auto simp: handler_defs Let_def
      split: event.splits sum.splits option.splits if_splits GameState.splits)

lemma fire_index_grows:
  assumes "currentIndex s < currentIndex (fire pf jp s e)"
  shows "e = ClickNext \<and> currentIndex (fire pf jp s e) = currentIndex s + 1
         \<and> history (fire pf jp s e) = history s"
  using assms
  by (auto simp: handler_defs Let_def
      split: event.splits sum.splits option.splits if_splits GameState.splits)

section \<open>Grading\<close>

text \<open>
  Claim C1, as amended. For every problem and every answer text, the answer is graded
  correct if and only if the parsed value and the problem's answer are both finite and
  their difference, rounded to the nearest double as the subtraction does, is in
  absolute value strictly less than the double nearest to 0.01; this is the case exactly
  when the exact difference of the two numbers is at most \<open>11529215046068469 / 2\<^sup>6\<^sup>0\<close>,
  which lies about \<open>6.6e-19\<close> below 0.01. So an answer graded correct differs from the
  problem's answer by strictly less than 0.01, and an answer text that parses to
  not-a-number is always graded incorrect.
\<close>

theorem grading_threshold:
  "(isCorrect parseFloat txt p \<longleftrightarrow>
      (\<exists>x a. parseFloat txt = Fin x \<and> answer p = Fin a
         \<and> js_lt (Math_abs (round64 (x - a))) (round64 (1 / 100))))
   \<and> (isCorrect parseFloat txt p \<longleftrightarrow>
      (\<exists>x a. parseFloat txt = Fin x \<and> answer p = Fin a
         \<and> \<bar>x - a\<bar> \<le> 11529215046068469 / 2 ^ 60))
   \<and> (isCorrect parseFloat txt p \<longrightarrow>
      (\<exists>x a. parseFloat txt = Fin x \<and> answer p = Fin a \<and> \<bar>x - a\<bar> < 1 / 100))
   \<and> (parseFloat txt = NaN \<longrightarrow> \<not> isCorrect parseFloat txt p)"
proof -
  have r: "isCorrect parseFloat txt p \<longleftrightarrow>
      (\<exists>x a. parseFloat txt = Fin x \<and> answer p = Fin a
         \<and> js_lt (Math_abs (round64 (x - a))) (round64 (1 / 100)))"
    by (rule isCorrect_rounded)
  have t: "isCorrect parseFloat txt p \<longleftrightarrow>
      (\<exists>x a. parseFloat txt = Fin x \<and> answer p = Fin a
         \<and> \<bar>x - a\<bar> \<le> 11529215046068469 / 2 ^ 60)"
    by (rule isCorrect_threshold)
  have l: "isCorrect parseFloat txt p \<longrightarrow>
      (\<exists>x a. parseFloat txt = Fin x \<and> answer p = Fin a \<and> \<bar>x - a\<bar> < 1 / 100)"
  proof
    assume "isCorrect parseFloat txt p"
    with t obtain x a where "parseFloat txt = Fin x" and "answer p = Fin a"
      and "\<bar>x - a\<bar> \<le> 11529215046068469 / 2 ^ 60" by blast
    moreover from this have "\<bar>x - a\<bar> < 1 / 100" by simp
    ultimately show "\<exists>x a. parseFloat txt = Fin x \<and> answer p = Fin a \<and> \<bar>x - a\<bar> < 1 / 100"
      by blast
  qed
  have n: "parseFloat txt = NaN \<longrightarrow> \<not> isCorrect parseFloat txt p"
    by (simp add: isCorrect_threshold)
  from r t l n show ?thesis by (intro conjI)
qed

theorem grading_threshold_witness:
  "isCorrect parseFloat_sample ''4700'' (fallback ! 2)
   \<and> \<not> isCorrect parseFloat_sample ''12'' (fallback ! 2)
   \<and> parseFloat_sample ''abc'' = NaN
   \<and> \<not> isCorrect parseFloat_sample ''abc'' (fallback ! 2)"
  using grading_threshold [of parseFloat_sample "''4700''" "fallback ! 2",
      THEN conjunct2, THEN conjunct1]
    grading_threshold [of parseFloat_sample "''12''" "fallback ! 2",
      THEN conjunct2, THEN conjunct1]
    grading_threshold [of parseFloat_sample "''abc''" "fallback ! 2",
      THEN conjunct2, THEN conjunct2, THEN conjunct2]
  by (simp add: parseFloat_sample_def fallback_def)

text \<open>
  The claim as it is worded fails: the doubles nearest to 0.0112 and to 0.0012 differ by
  less than 0.01, but their difference rounds to the double nearest to 0.01, which is not
  less than itself, and the answer is graded incorrect.
\<close>

theorem grading_exact_counterexample:
  "parseFloat_sample ''0.0112'' = Fin (6456360425798343 / 2 ^ 59)
   \<and> answer small_problem = Fin (5534023222112865 / 2 ^ 62)
   \<and> \<bar>6456360425798343 / 2 ^ 59 - 5534023222112865 / 2 ^ 62\<bar> < (1 / 100 :: real)
   \<and> js_sub (parseFloat_sample ''0.0112'') (answer small_problem) = round64 (1 / 100)
   \<and> \<not> isCorrect parseFloat_sample ''0.0112'' small_problem"
proof -
  have p: "parseFloat_sample ''0.0112'' = Fin (6456360425798343 / 2 ^ 59)"
    unfolding parseFloat_sample_def round64_sample_answer by simp
  have a: "answer small_problem = Fin (5534023222112865 / 2 ^ 62)"
    unfolding small_problem_def round64_sample_problem by simp
  have d: "round64 (6456360425798343 / 2 ^ 59 - 5534023222112865 / 2 ^ 62) = round64 (1 / 100)"
  proof -
    have "round64 (6456360425798343 / 2 ^ 59 - 5534023222112865 / 2 ^ 62) =
        Fin ((if (6456360425798343 / 2 ^ 59 - 5534023222112865 / 2 ^ 62 :: real) < 0 then - 1 else 1)
             * (of_int (round_half_even
                  (\<bar>6456360425798343 / 2 ^ 59 - 5534023222112865 / 2 ^ 62\<bar> / 2 powi (- 7 - 52)))
                * 2 powi (- 7 - 52)))"
      by (rule round64_eval) simp_all
    then show ?thesis by (simp add: round_half_even_def round64_hundredth)
  qed
  from p a d show ?thesis
    by (simp add: isCorrect_threshold)
qed

section \<open>The score\<close>

text \<open>
  Claim C2. In every state reachable from the initial state, the score equals the number
  of history entries whose correctness flag is true.
\<close>

theorem score_counts_correct:
  "score (run parseFloat JSON_parse es) =
     length (filter item_isCorrect (history (run parseFloat JSON_parse es)))"
  using score_inv_run [of parseFloat JSON_parse es] by (simp add: score_inv_def)

theorem score_counts_correct_witness:
  "score (run parseFloat_sample JSON_parse_sample
       [ClickStart, FetchSettles RequestThrows, ChangeAnswer ''1100'', SubmitForm, ClickNext,
        ChangeAnswer ''12'', SubmitForm]) = 1
   \<and> length (filter item_isCorrect (history (run parseFloat_sample JSON_parse_sample
       [ClickStart, FetchSettles RequestThrows, ChangeAnswer ''1100'', SubmitForm, ClickNext,
        ChangeAnswer ''12'', SubmitForm]))) = 1"
  using score_counts_correct [of parseFloat_sample JSON_parse_sample
      "[ClickStart, FetchSettles RequestThrows, ChangeAnswer ''1100'', SubmitForm, ClickNext,
        ChangeAnswer ''12'', SubmitForm]"]
  by (simp add: run_def handler_defs initialApp_def fallback_def Let_def isCorrect_threshold
      parseFloat_sample_def)

section \<open>Failure of the generation call\<close>

text \<open>
  Claim C3. When the request throws, or the response has no text or an empty text, or the
  text does not parse as JSON, \<open>generateDailyProblems\<close> returns normally with the fixed
  fallback sequence of three problems, the first of which has the question
  \<open>25 \<times> 44\<close>, and the session goes on to the playing screen with these problems.
\<close>

theorem generation_failure_falls_back:
  assumes "r = RequestThrows \<or> r = Responds None \<or> r = Responds (Some [])
           \<or> (r = Responds (Some t) \<and> JSON_parse t = None)"
  shows "generateDailyProblems JSON_parse r = Inr fallback
         \<and> length fallback = 3
         \<and> question (fallback ! 0) = ''25 '' @ [CHR 0xC3, CHR 0x97] @ '' 44''
         \<and> gameState (startTraining_resume JSON_parse r (startTraining s)) = playing
         \<and> problems (startTraining_resume JSON_parse r (startTraining s)) = fallback"
proof -
  from assms have g: "generateDailyProblems JSON_parse r = Inr fallback"
    by (auto simp: generateDailyProblems_def)
  have "length fallback = 3"
    and "question (fallback ! 0) = ''25 '' @ [CHR 0xC3, CHR 0x97] @ '' 44''"
    by (simp_all add: fallback_def)
  with g show ?thesis
    by (simp add: startTraining_resume_def)
qed

theorem generation_failure_falls_back_witness:
  "JSON_parse_sample ''oops'' = None
   \<and> generateDailyProblems JSON_parse_sample (Responds (Some ''oops'')) = Inr fallback
   \<and> generateDailyProblems JSON_parse_sample RequestThrows = Inr fallback
   \<and> length fallback = 3
   \<and> problems (startTraining_resume JSON_parse_sample (Responds (Some ''oops''))
        (startTraining initialApp)) = fallback"
  using generation_failure_falls_back
      [of "Responds (Some ''oops'')" "''oops''" JSON_parse_sample initialApp]
    generation_failure_falls_back [of RequestThrows "''oops''" JSON_parse_sample initialApp]
  by (simp add: JSON_parse_sample_def)

section \<open>Submitting\<close>

text \<open>
  Claim C4. On the playing screen, submitting while the answer text is empty changes
  nothing: no history entry is created, the score is unchanged, the screen remains
  playing and \<open>showExplanation\<close> keeps its value.
\<close>

theorem empty_submit_is_noop:
  assumes "gameState s = playing" and "userAnswer s = []"
  shows "handleSubmit parseFloat s = Inr s
         \<and> fire parseFloat JSON_parse s SubmitForm = s
         \<and> history (fire parseFloat JSON_parse s SubmitForm) = history s
         \<and> score (fire parseFloat JSON_parse s SubmitForm) = score s
         \<and> gameState (fire parseFloat JSON_parse s SubmitForm) = playing
         \<and> showExplanation (fire parseFloat JSON_parse s SubmitForm) = showExplanation s"
proof -
  from assms have h: "handleSubmit parseFloat s = Inr s"
    by (simp add: handleSubmit_def)
  then have "fire parseFloat JSON_parse s SubmitForm = s"
    by (simp add: fire_def handle_def)
  with assms h show ?thesis by simp
qed

theorem empty_submit_is_noop_witness:
  "gameState (run parseFloat_sample JSON_parse_sample [ClickStart, FetchSettles RequestThrows])
     = playing
   \<and> userAnswer (run parseFloat_sample JSON_parse_sample [ClickStart, FetchSettles RequestThrows])
     = []
   \<and> run parseFloat_sample JSON_parse_sample [ClickStart, FetchSettles RequestThrows, SubmitForm]
     = run parseFloat_sample JSON_parse_sample [ClickStart, FetchSettles RequestThrows]"
  using empty_submit_is_noop
      [of "run parseFloat_sample JSON_parse_sample [ClickStart, FetchSettles RequestThrows]"
          parseFloat_sample JSON_parse_sample]
  by (simp add: run_def fire_def handle_def offered_def startTraining_def
      startTraining_resume_def generateDailyProblems_def initialApp_def)

text \<open>
  Claim C10. \<open>handleSubmit\<close> does not look at \<open>showExplanation\<close>: whenever the answer text
  is not empty and there is a current problem, a call appends a history record for that
  problem, adds one to the score if the answer is graded correct and sets
  \<open>showExplanation\<close>, whatever \<open>showExplanation\<close> was before. A second call on the resulting
  state appends a second record for the same problem. Only the rendering keeps this from
  happening: while \<open>showExplanation\<close> is true the form is not offered.
\<close>

theorem submit_ignores_showExplanation:
  assumes "userAnswer s \<noteq> []" and "currentProblem s = Some p"
  shows "\<exists>s' s''.
           handleSubmit parseFloat s = Inr s'
         \<and> handleSubmit parseFloat (s\<lparr>showExplanation := True\<rparr>) = Inr s'
         \<and> history s' = history s @
              [\<lparr>item_problem = p, item_userAnswer = userAnswer s,
                item_isCorrect = isCorrect parseFloat (userAnswer s) p\<rparr>]
         \<and> score s' = (if isCorrect parseFloat (userAnswer s) p then score s + 1 else score s)
         \<and> showExplanation s'
         \<and> \<not> offered s' SubmitForm
         \<and> handleSubmit parseFloat s' = Inr s''
         \<and> history s'' = history s @
              [\<lparr>item_problem = p, item_userAnswer = userAnswer s,
                item_isCorrect = isCorrect parseFloat (userAnswer s) p\<rparr>,
               \<lparr>item_problem = p, item_userAnswer = userAnswer s,
                item_isCorrect = isCorrect parseFloat (userAnswer s) p\<rparr>]
         \<and> score s'' = (if isCorrect parseFloat (userAnswer s) p then score s + 2 else score s)"
  using assms
  by (auto simp: handleSubmit_def currentProblem_def offered_def Let_def
      split: GameState.splits if_splits)

theorem submit_ignores_showExplanation_witness:
  "userAnswer answering_first \<noteq> []
   \<and> currentProblem answering_first = Some (fallback ! 0)
   \<and> (\<exists>s' s''.
         handleSubmit parseFloat_sample answering_first = Inr s'
       \<and> handleSubmit parseFloat_sample s' = Inr s''
       \<and> length (history s') = 1 \<and> length (history s'') = 2
       \<and> score s' = 1 \<and> score s'' = 2)"
proof -
  have u: "userAnswer answering_first \<noteq> []"
    by (simp add: answering_first_def run_def handler_defs initialApp_def fallback_def)
  have c: "currentProblem answering_first = Some (fallback ! 0)"
    by (simp add: answering_first_def run_def handler_defs initialApp_def fallback_def)
  have g: "isCorrect parseFloat_sample (userAnswer answering_first) (fallback ! 0)"
    by (simp add: answering_first_def run_def handler_defs initialApp_def fallback_def
        isCorrect_threshold parseFloat_sample_def)
  have h: "history answering_first = []" and z: "score answering_first = 0"
    by (simp_all add: answering_first_def run_def handler_defs initialApp_def fallback_def)
  from submit_ignores_showExplanation [OF u c, of parseFloat_sample] g h z
  have "\<exists>s' s''.
         handleSubmit parseFloat_sample answering_first = Inr s'
       \<and> handleSubmit parseFloat_sample s' = Inr s''
       \<and> length (history s') = 1 \<and> length (history s'') = 2
       \<and> score s' = 1 \<and> score s'' = 2"
    by (elim exE conjE) (intro exI conjI, assumption, assumption, simp_all)
  with u c show ?thesis by simp
qed

section \<open>Advancing\<close>

text \<open>
  Claim C5. On the playing screen with the explanation shown: if the current index is
  below the index of the last problem, \<open>handleNext\<close> adds one to the index, clears the
  answer text and hides the explanation, and the screen stays playing; otherwise it sets
  the screen to summary and leaves the problems, the score and the history as they were.
\<close>

theorem advance_step:
  assumes "gameState s = playing" and "showExplanation s"
  shows "(Suc (currentIndex s) < length (problems s) \<longrightarrow>
            currentIndex (handleNext s) = currentIndex s + 1
            \<and> userAnswer (handleNext s) = []
            \<and> \<not> showExplanation (handleNext s)
            \<and> gameState (handleNext s) = playing)
         \<and> (\<not> Suc (currentIndex s) < length (problems s) \<longrightarrow>
            gameState (handleNext s) = summary
            \<and> problems (handleNext s) = problems s
            \<and> score (handleNext s) = score s
            \<and> history (handleNext s) = history s)"
proof -
  have "int (currentIndex s) < int (length (problems s)) - 1
          \<longleftrightarrow> Suc (currentIndex s) < length (problems s)"
    by linarith
  with assms show ?thesis
    by (simp add: handleNext_def)
qed

theorem advance_step_witness:
  "currentIndex (handleNext
      \<lparr>gameState = playing, problems = fallback, currentIndex = 1, userAnswer = ''12'',
       showExplanation = True, history = [], score = 0\<rparr>) = 2
   \<and> gameState (handleNext
      \<lparr>gameState = playing, problems = fallback, currentIndex = 1, userAnswer = ''12'',
       showExplanation = True, history = [], score = 0\<rparr>) = playing
   \<and> gameState (handleNext
      \<lparr>gameState = playing, problems = fallback, currentIndex = 2, userAnswer = ''12'',
       showExplanation = True, history = [], score = 0\<rparr>) = summary"
  using advance_step
      [of "\<lparr>gameState = playing, problems = fallback, currentIndex = 1, userAnswer = ''12'',
            showExplanation = True, history = [], score = 0\<rparr>"]
    advance_step
      [of "\<lparr>gameState = playing, problems = fallback, currentIndex = 2, userAnswer = ''12'',
            showExplanation = True, history = [], score = 0\<rparr>"]
  by (simp add: fallback_def)

section \<open>Starting and restarting\<close>

text \<open>
  Claim C6. From the intro screen or the summary screen, whatever the score, the history
  and the index are, the start button moves the screen to loading, and when the fetch
  resolves with a problem sequence the state becomes: playing, that sequence, index 0,
  score 0, empty history, empty answer text, explanation hidden. The fetch resolves in
  every case but that of the client construction throwing.
\<close>

theorem start_resets_session:
  assumes "gameState s = intro \<or> gameState s = summary"
  shows "gameState (fire parseFloat JSON_parse s ClickStart) = loading
         \<and> (generateDailyProblems JSON_parse r = Inr ps \<longrightarrow>
              fire parseFloat JSON_parse (fire parseFloat JSON_parse s ClickStart) (FetchSettles r) =
                \<lparr>gameState = playing, problems = ps, currentIndex = 0, userAnswer = [],
                 showExplanation = False, history = [], score = 0\<rparr>)
         \<and> (r \<noteq> ClientThrows \<longrightarrow> (\<exists>qs. generateDailyProblems JSON_parse r = Inr qs))"
proof -
  have "r \<noteq> ClientThrows \<longrightarrow> (\<exists>qs. generateDailyProblems JSON_parse r = Inr qs)"
    by (simp add: generateDailyProblems_def split: api_result.splits option.splits)
  with assms show ?thesis
    by (auto simp: fire_def handle_def offered_def startTraining_def startTraining_resume_def)
qed

theorem start_resets_session_witness:
  "gameState (handleNext
      \<lparr>gameState = playing, problems = fallback, currentIndex = 2, userAnswer = ''12'',
       showExplanation = True, history = [], score = 2\<rparr>) = summary
   \<and> generateDailyProblems JSON_parse_sample RequestThrows = Inr fallback
   \<and> fire parseFloat_sample JSON_parse_sample
       (fire parseFloat_sample JSON_parse_sample
          (handleNext
             \<lparr>gameState = playing, problems = fallback, currentIndex = 2, userAnswer = ''12'',
              showExplanation = True, history = [], score = 2\<rparr>) ClickStart)
       (FetchSettles RequestThrows) =
       \<lparr>gameState = playing, problems = fallback, currentIndex = 0, userAnswer = [],
        showExplanation = False, history = [], score = 0\<rparr>"
  using start_resets_session
      [of "handleNext
             \<lparr>gameState = playing, problems = fallback, currentIndex = 2, userAnswer = ''12'',
              showExplanation = True, history = [], score = 2\<rparr>"
          parseFloat_sample JSON_parse_sample RequestThrows fallback]
  by (simp add: handleNext_def generateDailyProblems_def fallback_def)

section \<open>History and index\<close>

text \<open>
  Claim C7, as amended. In every reachable state where the screen is playing and the
  explanation is hidden, the length of the history equals the current index. The
  history grows only by a submit, which adds one record and leaves the index alone; the
  index grows only by an advance, which adds one and leaves the history alone.
\<close>

theorem history_tracks_index:
  "(gameState (run parseFloat JSON_parse es) = playing
      \<and> \<not> showExplanation (run parseFloat JSON_parse es) \<longrightarrow>
        length (history (run parseFloat JSON_parse es)) = currentIndex (run parseFloat JSON_parse es))
   \<and> (length (history s) < length (history (fire parseFloat JSON_parse s e)) \<longrightarrow>
        e = SubmitForm
        \<and> length (history (fire parseFloat JSON_parse s e)) = length (history s) + 1
        \<and> currentIndex (fire parseFloat JSON_parse s e) = currentIndex s)
   \<and> (currentIndex s < currentIndex (fire parseFloat JSON_parse s e) \<longrightarrow>
        e = ClickNext
        \<and> currentIndex (fire parseFloat JSON_parse s e) = currentIndex s + 1
        \<and> history (fire parseFloat JSON_parse s e) = history s)"
  using history_inv_run [of parseFloat JSON_parse es]
    fire_history_grows [of s parseFloat JSON_parse e]
    fire_index_grows [of s parseFloat JSON_parse e]
  by (simp add: history_inv_def)

theorem history_tracks_index_witness:
  "gameState (run parseFloat_sample JSON_parse_sample
      [ClickStart, FetchSettles RequestThrows, ChangeAnswer ''1100'', SubmitForm, ClickNext])
     = playing
   \<and> \<not> showExplanation (run parseFloat_sample JSON_parse_sample
      [ClickStart, FetchSettles RequestThrows, ChangeAnswer ''1100'', SubmitForm, ClickNext])
   \<and> length (history (run parseFloat_sample JSON_parse_sample
      [ClickStart, FetchSettles RequestThrows, ChangeAnswer ''1100'', SubmitForm, ClickNext]))
     = 1
   \<and> currentIndex (run parseFloat_sample JSON_parse_sample
      [ClickStart, FetchSettles RequestThrows, ChangeAnswer ''1100'', SubmitForm, ClickNext])
     = 1
   \<and> length (history answering_first)
       < length (history (fire parseFloat_sample JSON_parse_sample answering_first SubmitForm))
   \<and> currentIndex (fire parseFloat_sample JSON_parse_sample answering_first SubmitForm)
       = currentIndex answering_first
   \<and> currentIndex (fire parseFloat_sample JSON_parse_sample answering_first SubmitForm)
       < currentIndex (fire parseFloat_sample JSON_parse_sample
           (fire parseFloat_sample JSON_parse_sample answering_first SubmitForm) ClickNext)
   \<and> history (fire parseFloat_sample JSON_parse_sample
           (fire parseFloat_sample JSON_parse_sample answering_first SubmitForm) ClickNext)
       = history (fire parseFloat_sample JSON_parse_sample answering_first SubmitForm)"
  using history_tracks_index
      [of parseFloat_sample JSON_parse_sample
          "[ClickStart, FetchSettles RequestThrows, ChangeAnswer ''1100'', SubmitForm, ClickNext]"
          answering_first SubmitForm]
    history_tracks_index
      [of parseFloat_sample JSON_parse_sample "[]"
          "fire parseFloat_sample JSON_parse_sample answering_first SubmitForm" ClickNext]
  by (simp add: answering_first_def run_def handler_defs initialApp_def fallback_def Let_def)

text \<open>
  The claim as it is worded fails: the length of the history moves ahead of the current
  index by a submit, which is not the advance transition.
\<close>

theorem history_advance_counterexample:
  "offered answering_first SubmitForm
   \<and> int (length (history answering_first)) - int (currentIndex answering_first)
       < int (length (history (fire parseFloat_sample JSON_parse_sample answering_first SubmitForm)))
         - int (currentIndex (fire parseFloat_sample JSON_parse_sample answering_first SubmitForm))
   \<and> SubmitForm \<noteq> ClickNext"
  by (simp add: answering_first_def run_def handler_defs initialApp_def fallback_def Let_def)

text \<open>
  Claim C8, as amended. In every reachable state where the screen is playing and the
  problem sequence is not empty, the current index is a valid index into it; when the
  fetch returned an empty sequence, the playing state has index 0 and no current problem.
\<close>

theorem index_valid_when_nonempty:
  "gameState (run parseFloat JSON_parse es) = playing \<longrightarrow>
     (problems (run parseFloat JSON_parse es) \<noteq> [] \<longrightarrow>
        currentIndex (run parseFloat JSON_parse es) < length (problems (run parseFloat JSON_parse es)))
     \<and> (problems (run parseFloat JSON_parse es) = [] \<longrightarrow>
          currentIndex (run parseFloat JSON_parse es) = 0
          \<and> currentProblem (run parseFloat JSON_parse es) = None)"
  using index_inv_run [of parseFloat JSON_parse es]
  by (auto simp: index_inv_def currentProblem_def)

theorem index_valid_when_nonempty_witness:
  "gameState (run parseFloat_sample JSON_parse_sample
      [ClickStart, FetchSettles RequestThrows, ChangeAnswer ''1100'', SubmitForm, ClickNext])
     = playing
   \<and> problems (run parseFloat_sample JSON_parse_sample
      [ClickStart, FetchSettles RequestThrows, ChangeAnswer ''1100'', SubmitForm, ClickNext])
     \<noteq> []
   \<and> currentIndex (run parseFloat_sample JSON_parse_sample
      [ClickStart, FetchSettles RequestThrows, ChangeAnswer ''1100'', SubmitForm, ClickNext])
     < length (problems (run parseFloat_sample JSON_parse_sample
      [ClickStart, FetchSettles RequestThrows, ChangeAnswer ''1100'', SubmitForm, ClickNext]))
   \<and> gameState (run parseFloat_sample JSON_parse_sample
      [ClickStart, FetchSettles (Responds (Some ''[]''))]) = playing
   \<and> problems (run parseFloat_sample JSON_parse_sample
      [ClickStart, FetchSettles (Responds (Some ''[]''))]) = []
   \<and> currentIndex (run parseFloat_sample JSON_parse_sample
      [ClickStart, FetchSettles (Responds (Some ''[]''))]) = 0"
  using index_valid_when_nonempty
      [of parseFloat_sample JSON_parse_sample
          "[ClickStart, FetchSettles RequestThrows, ChangeAnswer ''1100'', SubmitForm, ClickNext]"]
    index_valid_when_nonempty
      [of parseFloat_sample JSON_parse_sample
          "[ClickStart, FetchSettles (Responds (Some ''[]''))]"]
  by (simp add: run_def handler_defs initialApp_def fallback_def Let_def JSON_parse_sample_def)

text \<open>
  The claim as it is worded fails when the service answers with the empty array: the
  screen is playing and index 0 is not below the length 0.
\<close>

theorem index_invalid_counterexample:
  "gameState after_empty_fetch = playing
   \<and> \<not> currentIndex after_empty_fetch < length (problems after_empty_fetch)"
  by (simp add: after_empty_fetch_def run_def handler_defs initialApp_def JSON_parse_sample_def)

section \<open>Success of the generation call\<close>

text \<open>
  Claim C9, as amended. When the response text is present, not empty and parses,
  \<open>generateDailyProblems\<close> returns exactly the parsed sequence, whatever its length, and
  that sequence becomes the problems of the session.
\<close>

theorem success_returns_parsed:
  assumes "t \<noteq> []" and "JSON_parse t = Some ps"
  shows "generateDailyProblems JSON_parse (Responds (Some t)) = Inr ps
         \<and> problems (startTraining_resume JSON_parse (Responds (Some t)) s) = ps"
  using assms by (simp add: generateDailyProblems_def startTraining_resume_def)

theorem success_returns_parsed_witness:
  "''[]'' \<noteq> [] \<and> JSON_parse_sample ''[]'' = Some []
   \<and> generateDailyProblems JSON_parse_sample (Responds (Some ''[]'')) = Inr []
   \<and> problems (startTraining_resume JSON_parse_sample (Responds (Some ''[]''))
        (startTraining initialApp)) = []"
  using success_returns_parsed [of "''[]''" JSON_parse_sample "[]" "startTraining initialApp"]
  by (simp add: JSON_parse_sample_def)

text \<open>
  The claim as it is worded fails: a response text that parses to the empty array is
  returned as it is, and its length is not ten.
\<close>

theorem ten_problems_counterexample:
  "generateDailyProblems JSON_parse_sample (Responds (Some ''[]'')) = Inr []
   \<and> length ([] :: MathProblem list) \<noteq> 10"
  by (simp add: generateDailyProblems_def JSON_parse_sample_def)

end
